theory Spec2Isabelle
  imports Main "HOL-Library.Word"
begin

section \<open>The SMTP backend of ntfy: \<^verbatim>\<open>server/smtp_server.go\<close>\<close>

text \<open>
  The file implements the session callbacks that the go-smtp engine drives
  (\<^verbatim>\<open>Rcpt\<close>, \<^verbatim>\<open>Data\<close>, \<^verbatim>\<open>Reset\<close>) and the helper \<^verbatim>\<open>readMailBody\<close>.
  Go strings are byte strings, modelled as \<^typ>\<open>string\<close>; \<^verbatim>\<open>len\<close> is \<^const>\<open>length\<close>.
  The mutexes only serialise access; the model is one call at a time and leaves
  them out.
\<close>

subsection \<open>Errors and outcomes\<close>

text \<open>
  The five package-level error variables of the file, \<^verbatim>\<open>io.EOF\<close>, and the errors
  that the Go standard library or the publisher produce (opaque, carried by their
  message).
\<close>

datatype error =
    errInvalidDomain
  | errInvalidAddress
  | errInvalidTopic
  | errTooManyRecipients
  | errUnsupportedContentType
  | io_EOF
  | ExternalError string

text \<open>
  A call either returns an \<^verbatim>\<open>error\<close> value (\<open>None\<close> is \<^verbatim>\<open>nil\<close>) or panics
  (a slice expression out of range).
\<close>

datatype outcome = Returns "error option" | Panics

subsection \<open>Data\<close>

text \<open>The fields of \<^verbatim>\<open>Config\<close> that the file reads; \<^verbatim>\<open>MessageLimit\<close> is a Go \<^verbatim>\<open>int\<close>.\<close>

record Config =
  SMTPServerDomain :: string
  SMTPServerAddrPrefix :: string
  MessageLimit :: int

text \<open>
  Modelled from the spec: the message type, declared elsewhere in the package. Of
  the outbound message the file reads and writes the topic, the title and the
  message body.
\<close>

record message =
  Topic :: string
  Title :: string
  Message :: string

text \<open>
  Modelled from the spec: \<^verbatim>\<open>newDefaultMessage\<close>, defined elsewhere in the package. A
  fresh message carries the given topic and body; its title is empty until \<^verbatim>\<open>Data\<close>
  populates it from the subject.
\<close>

definition newDefaultMessage :: "string \<Rightarrow> string \<Rightarrow> message" where
  "newDefaultMessage topic msg = \<lparr>Topic = topic, Title = [], Message = msg\<rparr>"

text \<open>
  \<^verbatim>\<open>smtpBackend\<close>: the configuration, the publisher \<^verbatim>\<open>sub\<close> and the two \<^verbatim>\<open>int64\<close>
  counters. \<open>handed\<close> is not a field of the struct: it records, oldest first,
  the messages that \<^verbatim>\<open>sub\<close> has been called with, which is the effect of the call
  that the backend can be held to.
\<close>

record smtpBackend =
  config :: Config
  sub :: "message \<Rightarrow> error option"
  success :: "64 word"
  failure :: "64 word"
  handed :: "message list"

text \<open>
  \<^verbatim>\<open>smtpSession\<close>: the topic. Its pointer to the backend is modelled by passing the
  backend alongside the session.
\<close>

record smtpSession =
  topic :: string

text \<open>\<^verbatim>\<open>mail.Address\<close>.\<close>

record mail_Address =
  Name :: string
  Address :: string

text \<open>
  An \<^verbatim>\<open>io.Reader\<close> is modelled by what \<^verbatim>\<open>io.ReadAll\<close> yields on it: an error, or
  all of its bytes.
\<close>

type_synonym reader = "error + string"

definition io_ReadAll :: "reader \<Rightarrow> error + string" where
  "io_ReadAll r = r"

text \<open>
  \<^verbatim>\<open>mail.Header\<close> and \<^verbatim>\<open>textproto.MIMEHeader\<close> are \<^verbatim>\<open>map[string][]string\<close> with
  canonical keys; \<^verbatim>\<open>Get\<close> returns the first value of a key, or the empty string.
  The two keys the file asks for, \<^verbatim>\<open>Content-Type\<close> and \<^verbatim>\<open>Subject\<close>, are canonical.
\<close>

type_synonym header = "string \<rightharpoonup> string list"

definition Header_Get :: "header \<Rightarrow> string \<Rightarrow> string" where
  "Header_Get h key = (case h key of None \<Rightarrow> [] | Some [] \<Rightarrow> [] | Some (v # _) \<Rightarrow> v)"

record mail_Message =
  Header :: header
  Body :: reader

record multipart_Part =
  PartHeader :: header
  PartBody :: reader

text \<open>
  A \<^verbatim>\<open>multipart.Reader\<close> is modelled by the parts that successive calls of
  \<^verbatim>\<open>NextPart\<close> yield and the error of the first call that fails (\<^verbatim>\<open>io.EOF\<close> after
  the closing boundary). The reader works on a finite buffer and every call
  consumes input, so there are finitely many parts before that error.
\<close>

type_synonym multipart_Reader = "multipart_Part list \<times> error"

text \<open>
  What the file calls in the Go standard library and in the rest of the package,
  taken as parameters: \<^verbatim>\<open>mail.ParseAddressList\<close>, \<^verbatim>\<open>topicRegex.MatchString\<close>,
  \<^verbatim>\<open>mail.ReadMessage\<close>, \<^verbatim>\<open>mime.ParseMediaType\<close>, \<^verbatim>\<open>multipart.NewReader\<close>,
  \<^verbatim>\<open>strings.TrimSpace\<close> and \<^verbatim>\<open>mime.WordDecoder.DecodeHeader\<close>.
\<close>

record lib =
  mail_ParseAddressList :: "string \<Rightarrow> error + mail_Address list"
  topicRegex_MatchString :: "string \<Rightarrow> bool"
  mail_ReadMessage :: "string \<Rightarrow> error + mail_Message"
  mime_ParseMediaType :: "string \<Rightarrow> error + string \<times> (string \<rightharpoonup> string)"
  multipart_NewReader :: "reader \<Rightarrow> string \<Rightarrow> multipart_Reader"
  strings_TrimSpace :: "string \<Rightarrow> string"
  DecodeHeader :: "string \<Rightarrow> error + string"

subsection \<open>The functions of package \<^verbatim>\<open>strings\<close> whose definition is one line\<close>

definition strings_HasPrefix :: "string \<Rightarrow> string \<Rightarrow> bool" where
  "strings_HasPrefix s p \<longleftrightarrow> length p \<le> length s \<and> take (length p) s = p"

definition strings_HasSuffix :: "string \<Rightarrow> string \<Rightarrow> bool" where
  "strings_HasSuffix s x \<longleftrightarrow> length x \<le> length s \<and> drop (length s - length x) s = x"

definition strings_TrimPrefix :: "string \<Rightarrow> string \<Rightarrow> string" where
  "strings_TrimPrefix s p = (if strings_HasPrefix s p then drop (length p) s else s)"

definition strings_TrimSuffix :: "string \<Rightarrow> string \<Rightarrow> string" where
  "strings_TrimSuffix s x = (if strings_HasSuffix s x then take (length s - length x) s else s)"

subsection \<open>\<^verbatim>\<open>withFailCount\<close>\<close>

text \<open>
  Runs \<open>fn\<close>, then counts a failure when it returned an error. A panic of \<open>fn\<close>
  leaves the function before the counter is touched.
\<close>

definition withFailCount ::
  "(smtpSession \<Rightarrow> smtpBackend \<Rightarrow> outcome \<times> smtpSession \<times> smtpBackend) \<Rightarrow>
   smtpSession \<Rightarrow> smtpBackend \<Rightarrow> outcome \<times> smtpSession \<times> smtpBackend" where
  "withFailCount fn s b =
     (case fn s b of
        (Panics, s', b') \<Rightarrow> (Panics, s', b')
      | (Returns err, s', b') \<Rightarrow>
          (Returns err, s', if err \<noteq> None then b'\<lparr>failure := failure b' + 1\<rparr> else b'))"

subsection \<open>\<^verbatim>\<open>Rcpt\<close>\<close>

definition Rcpt_fn ::
  "lib \<Rightarrow> string \<Rightarrow> smtpSession \<Rightarrow> smtpBackend \<Rightarrow> outcome \<times> smtpSession \<times> smtpBackend" where
  "Rcpt_fn l to s b =
     (let conf = config b in
      case mail_ParseAddressList l to of
        Inl err \<Rightarrow> (Returns (Some err), s, b)
      | Inr addressList \<Rightarrow>
          (case addressList of
             [a] \<Rightarrow>
               (let to1 = Address a in
                if \<not> strings_HasSuffix to1 (''@'' @ SMTPServerDomain conf)
                then (Returns (Some errInvalidDomain), s, b)
                else
                  let to2 = strings_TrimSuffix to1 (''@'' @ SMTPServerDomain conf) in
                  if SMTPServerAddrPrefix conf \<noteq> [] \<and>
                     \<not> strings_HasPrefix to2 (SMTPServerAddrPrefix conf)
                  then (Returns (Some errInvalidAddress), s, b)
                  else
                    let to3 = (if SMTPServerAddrPrefix conf \<noteq> []
                               then strings_TrimPrefix to2 (SMTPServerAddrPrefix conf)
                               else to2) in
                    if \<not> topicRegex_MatchString l to3
                    then (Returns (Some errInvalidTopic), s, b)
                    else (Returns None, s\<lparr>topic := to3\<rparr>, b))
           | _ \<Rightarrow> (Returns (Some errTooManyRecipients), s, b)))"

definition Rcpt ::
  "lib \<Rightarrow> string \<Rightarrow> smtpSession \<Rightarrow> smtpBackend \<Rightarrow> outcome \<times> smtpSession \<times> smtpBackend" where
  "Rcpt l to = withFailCount (Rcpt_fn l to)"

subsection \<open>\<^verbatim>\<open>readMailBody\<close>\<close>

text \<open>
  The \<^verbatim>\<open>for\<close> loop over the parts: \<open>parts\<close> are the parts that \<^verbatim>\<open>NextPart\<close> has
  yet to yield and \<open>e\<close> is the error it returns after them.
\<close>

fun readMailBody_loop :: "lib \<Rightarrow> multipart_Part list \<Rightarrow> error \<Rightarrow> error + string" where
  "readMailBody_loop l [] e = Inl e"
| "readMailBody_loop l (part # rest) e =
     (case mime_ParseMediaType l (Header_Get (PartHeader part) ''Content-Type'') of
        Inl err \<Rightarrow> Inl err
      | Inr (partContentType, _) \<Rightarrow>
          if partContentType \<noteq> ''text/plain'' then readMailBody_loop l rest e
          else (case io_ReadAll (PartBody part) of
                  Inl err \<Rightarrow> Inl err
                | Inr body \<Rightarrow> Inr body))"

text \<open>Indexing a Go map with a missing key gives the zero value.\<close>

definition params_get :: "(string \<rightharpoonup> string) \<Rightarrow> string \<Rightarrow> string" where
  "params_get params key = (case params key of None \<Rightarrow> [] | Some v \<Rightarrow> v)"

definition readMailBody :: "lib \<Rightarrow> mail_Message \<Rightarrow> error + string" where
  "readMailBody l msg =
     (case mime_ParseMediaType l (Header_Get (Header msg) ''Content-Type'') of
        Inl err \<Rightarrow> Inl err
      | Inr (contentType, params) \<Rightarrow>
          if contentType = ''text/plain''
          then (case io_ReadAll (Body msg) of
                  Inl err \<Rightarrow> Inl err
                | Inr body \<Rightarrow> Inr body)
          else if strings_HasPrefix contentType ''multipart/''
          then (case multipart_NewReader l (Body msg) (params_get params ''boundary'') of
                  (parts, e) \<Rightarrow> readMailBody_loop l parts e)
          else Inl errUnsupportedContentType)"

subsection \<open>\<^verbatim>\<open>Data\<close>\<close>

text \<open>
  \<^verbatim>\<open>body[:conf.MessageLimit]\<close> is evaluated only when \<^verbatim>\<open>len(body) > conf.MessageLimit\<close>;
  it panics when the limit is negative. The call of \<^verbatim>\<open>sub\<close> is recorded in
  \<open>handed\<close>.
\<close>

definition Data_fn ::
  "lib \<Rightarrow> reader \<Rightarrow> smtpSession \<Rightarrow> smtpBackend \<Rightarrow> outcome \<times> smtpSession \<times> smtpBackend" where
  "Data_fn l r s b =
     (let conf = config b in
      case io_ReadAll r of
        Inl err \<Rightarrow> (Returns (Some err), s, b)
      | Inr raw \<Rightarrow>
     (case mail_ReadMessage l raw of
        Inl err \<Rightarrow> (Returns (Some err), s, b)
      | Inr msg \<Rightarrow>
     (case readMailBody l msg of
        Inl err \<Rightarrow> (Returns (Some err), s, b)
      | Inr body0 \<Rightarrow>
          let body1 = strings_TrimSpace l body0 in
          if int (length body1) > MessageLimit conf \<and> MessageLimit conf < 0
          then (Panics, s, b)
          else
            let body = (if int (length body1) > MessageLimit conf
                        then take (nat (MessageLimit conf)) body1 else body1);
                m = newDefaultMessage (topic s) body;
                subject = strings_TrimSpace l (Header_Get (Header msg) ''Subject'')
            in
            case (if subject \<noteq> []
                  then (case DecodeHeader l subject of
                          Inl err \<Rightarrow> Inl err
                        | Inr subject' \<Rightarrow> Inr (m\<lparr>Title := subject'\<rparr>))
                  else Inr m) of
              Inl err \<Rightarrow> (Returns (Some err), s, b)
            | Inr m1 \<Rightarrow>
                let m2 = (if Title m1 \<noteq> [] \<and> Message m1 = []
                          then m1\<lparr>Message := Title m1, Title := []\<rparr> else m1);
                    b1 = b\<lparr>handed := handed b @ [m2]\<rparr>
                in
                case sub b m2 of
                  Some err \<Rightarrow> (Returns (Some err), s, b1)
                | None \<Rightarrow> (Returns None, s, b1\<lparr>success := success b1 + 1\<rparr>))))"

definition Data ::
  "lib \<Rightarrow> reader \<Rightarrow> smtpSession \<Rightarrow> smtpBackend \<Rightarrow> outcome \<times> smtpSession \<times> smtpBackend" where
  "Data l r = withFailCount (Data_fn l r)"

subsection \<open>\<^verbatim>\<open>Reset\<close>\<close>

definition Reset :: "smtpSession \<Rightarrow> smtpSession" where
  "Reset s = s\<lparr>topic := []\<rparr>"

subsection \<open>Vocabulary of the properties\<close>

text \<open>The media type of a part, when its \<^verbatim>\<open>Content-Type\<close> parses.\<close>

definition part_media_type :: "lib \<Rightarrow> multipart_Part \<Rightarrow> string option" where
  "part_media_type l p =
     (case mime_ParseMediaType l (Header_Get (PartHeader p) ''Content-Type'') of
        Inl _ \<Rightarrow> None
      | Inr (t, _) \<Rightarrow> Some t)"

text \<open>A part that has a media type other than \<^verbatim>\<open>text/plain\<close>.\<close>

definition other_part :: "lib \<Rightarrow> multipart_Part \<Rightarrow> bool" where
  "other_part l p \<longleftrightarrow>
     (case part_media_type l p of None \<Rightarrow> False | Some t \<Rightarrow> t \<noteq> ''text/plain'')"

text \<open>
  The body that \<^verbatim>\<open>Data\<close> gives to \<^verbatim>\<open>newDefaultMessage\<close> for a trimmed body under a
  limit that is not negative.
\<close>

definition cut :: "int \<Rightarrow> string \<Rightarrow> string" where
  "cut limit body = (if int (length body) > limit then take (nat limit) body else body)"

text \<open>
  The title that \<^verbatim>\<open>Data\<close> has populated before the swap: empty when the trimmed
  \<^verbatim>\<open>Subject\<close> is empty, the decoded trimmed \<^verbatim>\<open>Subject\<close> otherwise (an error when it
  does not decode).
\<close>

definition populated_title :: "lib \<Rightarrow> mail_Message \<Rightarrow> error + string" where
  "populated_title l msg =
     (let subject = strings_TrimSpace l (Header_Get (Header msg) ''Subject'')
      in if subject \<noteq> [] then DecodeHeader l subject else Inr [])"

text \<open>
  The swap rule in the words of the specification: a title without a message
  becomes the message.
\<close>

definition swap_rule :: "string \<Rightarrow> string \<Rightarrow> string \<Rightarrow> message" where
  "swap_rule tp title0 message0 =
     (if title0 \<noteq> [] \<and> message0 = []
      then \<lparr>Topic = tp, Title = [], Message = title0\<rparr>
      else \<lparr>Topic = tp, Title = title0, Message = message0\<rparr>)"

text \<open>The engine calling \<^verbatim>\<open>Rcpt\<close> once for each recipient of a list, in order.\<close>

fun Rcpt_each ::
  "lib \<Rightarrow> string list \<Rightarrow> smtpSession \<Rightarrow> smtpBackend \<Rightarrow> outcome list \<times> smtpSession \<times> smtpBackend" where
  "Rcpt_each l [] s b = ([], s, b)"
| "Rcpt_each l (to # tos) s b =
     (case Rcpt l to s b of
        (out, s1, b1) \<Rightarrow>
          (case Rcpt_each l tos s1 b1 of (outs, s2, b2) \<Rightarrow> (out # outs, s2, b2)))"

text \<open>
  The shape of an accepted address: prefix, topic, \<^verbatim>\<open>@\<close>, domain, with the topic
  matching the pattern.
\<close>

definition accepted_form :: "lib \<Rightarrow> Config \<Rightarrow> string \<Rightarrow> string \<Rightarrow> bool" where
  "accepted_form l conf addr t \<longleftrightarrow>
     addr = SMTPServerAddrPrefix conf @ t @ ''@'' @ SMTPServerDomain conf \<and>
     topicRegex_MatchString l t"

subsection \<open>A sample configuration, library and mails\<close>

text \<open>
  Concrete collaborators on which the properties below are instantiated. Each
  library function is given on the sample inputs, as the Go library behaves there
  (an error by a short message); \<open>sample_TrimSpace\<close> trims the ASCII white space,
  \<open>sample_topic_char\<close> is the character class of the package's topic pattern, and
  the publisher accepts every message.
\<close>

definition crlf :: string where
  "crlf = [CHR 0x0D, CHR 0x0A]"

definition sample_conf :: Config where
  "sample_conf = \<lparr>SMTPServerDomain = ''ntfy.sh'', SMTPServerAddrPrefix = ''ntfy-'',
     MessageLimit = 5\<rparr>"

definition sample_backend :: smtpBackend where
  "sample_backend = \<lparr>config = sample_conf, sub = (\<lambda>m. None), success = 0, failure = 0,
     handed = []\<rparr>"

definition sample_topic_char :: "char \<Rightarrow> bool" where
  "sample_topic_char c \<longleftrightarrow>
     c \<in> set ''-_ABCDEFGHIJKLMNOPQRSTUVWXYZabcdefghijklmnopqrstuvwxyz0123456789''"

definition sample_ascii_space :: "char \<Rightarrow> bool" where
  "sample_ascii_space c \<longleftrightarrow> c \<in> set [CHR 0x09, CHR 0x0A, CHR 0x0B, CHR 0x0C, CHR 0x0D, CHR 0x20]"

definition sample_TrimSpace :: "string \<Rightarrow> string" where
  "sample_TrimSpace x =
     rev (dropWhile sample_ascii_space (rev (dropWhile sample_ascii_space x)))"

text \<open>Five mails with a \<^verbatim>\<open>text/plain\<close> body, as bytes and as \<^verbatim>\<open>mail.ReadMessage\<close> parses them.\<close>

definition raw_hello :: string where
  "raw_hello = ''Subject: Hello'' @ crlf @ ''Content-Type: text/plain'' @ crlf @ crlf"

definition msg_hello :: mail_Message where
  "msg_hello = \<lparr>Header = [''Subject'' \<mapsto> [''Hello''], ''Content-Type'' \<mapsto> [''text/plain'']],
     Body = Inr []\<rparr>"

definition raw_world :: string where
  "raw_world = ''Content-Type: text/plain'' @ crlf @ crlf @ ''World''"

definition msg_world :: mail_Message where
  "msg_world = \<lparr>Header = [''Content-Type'' \<mapsto> [''text/plain'']], Body = Inr ''World''\<rparr>"

definition raw_hi_world :: string where
  "raw_hi_world =
     ''Subject: Hi'' @ crlf @ ''Content-Type: text/plain'' @ crlf @ crlf @ ''World''"

definition msg_hi_world :: mail_Message where
  "msg_hi_world = \<lparr>Header = [''Subject'' \<mapsto> [''Hi''], ''Content-Type'' \<mapsto> [''text/plain'']],
     Body = Inr ''World''\<rparr>"

definition raw_long_body :: string where
  "raw_long_body =
     ''Subject: Hi'' @ crlf @ ''Content-Type: text/plain'' @ crlf @ crlf @ ''  Hello World '' @ crlf"

definition msg_long_body :: mail_Message where
  "msg_long_body = \<lparr>Header = [''Subject'' \<mapsto> [''Hi''], ''Content-Type'' \<mapsto> [''text/plain'']],
     Body = Inr (''  Hello World '' @ crlf)\<rparr>"

definition raw_long_subject :: string where
  "raw_long_subject =
     ''Subject: Backup finished'' @ crlf @ ''Content-Type: text/plain'' @ crlf @ crlf @ ''  '' @ crlf"

definition msg_long_subject :: mail_Message where
  "msg_long_subject =
     \<lparr>Header = [''Subject'' \<mapsto> [''Backup finished''], ''Content-Type'' \<mapsto> [''text/plain'']],
      Body = Inr (''  '' @ crlf)\<rparr>"

text \<open>Two multipart mails with boundary \<^verbatim>\<open>XX\<close> and their parts.\<close>

definition part_html :: multipart_Part where
  "part_html = \<lparr>PartHeader = [''Content-Type'' \<mapsto> [''text/html'']], PartBody = Inr ''<p>H</p>''\<rparr>"

definition part_A :: multipart_Part where
  "part_A = \<lparr>PartHeader = [''Content-Type'' \<mapsto> [''text/plain'']], PartBody = Inr ''A''\<rparr>"

definition part_B :: multipart_Part where
  "part_B = \<lparr>PartHeader = [''Content-Type'' \<mapsto> [''text/plain'']], PartBody = Inr ''B''\<rparr>"

definition body_html_A_B :: string where
  "body_html_A_B =
     ''--XX'' @ crlf @ ''Content-Type: text/html'' @ crlf @ crlf @ ''<p>H</p>'' @ crlf @
     ''--XX'' @ crlf @ ''Content-Type: text/plain'' @ crlf @ crlf @ ''A'' @ crlf @
     ''--XX'' @ crlf @ ''Content-Type: text/plain'' @ crlf @ crlf @ ''B'' @ crlf @
     ''--XX--'' @ crlf"

definition msg_html_A_B :: mail_Message where
  "msg_html_A_B =
     \<lparr>Header = [''Content-Type'' \<mapsto> [''multipart/alternative; boundary=XX'']],
      Body = Inr body_html_A_B\<rparr>"

definition body_html_only :: string where
  "body_html_only =
     ''--XX'' @ crlf @ ''Content-Type: text/html'' @ crlf @ crlf @ ''<p>H</p>'' @ crlf @
     ''--XX--'' @ crlf"

definition msg_html_only :: mail_Message where
  "msg_html_only =
     \<lparr>Header = [''Content-Type'' \<mapsto> [''multipart/alternative; boundary=XX'']],
      Body = Inr body_html_only\<rparr>"

text \<open>A multipart mail whose first part has no header at all.\<close>

definition part_no_header :: multipart_Part where
  "part_no_header = \<lparr>PartHeader = Map.empty, PartBody = Inr ''raw''\<rparr>"

definition body_noheader_A :: string where
  "body_noheader_A =
     ''--XX'' @ crlf @ crlf @ ''raw'' @ crlf @
     ''--XX'' @ crlf @ ''Content-Type: text/plain'' @ crlf @ crlf @ ''A'' @ crlf @
     ''--XX--'' @ crlf"

definition msg_noheader_A :: mail_Message where
  "msg_noheader_A =
     \<lparr>Header = [''Content-Type'' \<mapsto> [''multipart/alternative; boundary=XX'']],
      Body = Inr body_noheader_A\<rparr>"

definition sample_lib :: lib where
  "sample_lib =
     \<lparr>mail_ParseAddressList =
        (\<lambda>x. if x = ''ntfy-mytopic@ntfy.sh'' \<or> x = ''mytopic@example.com''
             then Inr [\<lparr>Name = [], Address = x\<rparr>]
             else if x = ''Bob <ntfy-mytopic@ntfy.sh>''
             then Inr [\<lparr>Name = ''Bob'', Address = ''ntfy-mytopic@ntfy.sh''\<rparr>]
             else Inl (ExternalError ''mail: no address'')),
      topicRegex_MatchString =
        (\<lambda>t. t \<noteq> [] \<and> length t \<le> 64 \<and> list_all sample_topic_char t),
      mail_ReadMessage =
        (\<lambda>raw. if raw = raw_hello then Inr msg_hello
               else if raw = raw_world then Inr msg_world
               else if raw = raw_hi_world then Inr msg_hi_world
               else if raw = raw_long_body then Inr msg_long_body
               else if raw = raw_long_subject then Inr msg_long_subject
               else Inl (ExternalError ''malformed MIME header line'')),
      mime_ParseMediaType =
        (\<lambda>v. if v = ''text/plain'' then Inr (''text/plain'', Map.empty)
             else if v = ''text/html'' then Inr (''text/html'', Map.empty)
             else if v = ''multipart/alternative; boundary=XX''
             then Inr (''multipart/alternative'', [''boundary'' \<mapsto> ''XX''])
             else Inl (ExternalError ''mime: no media type'')),
      multipart_NewReader =
        (\<lambda>body boundary.
             if body = Inr body_html_A_B \<and> boundary = ''XX''
             then ([part_html, part_A, part_B], io_EOF)
             else if body = Inr body_html_only \<and> boundary = ''XX''
             then ([part_html], io_EOF)
             else if body = Inr body_noheader_A \<and> boundary = ''XX''
             then ([part_no_header, part_A], io_EOF)
             else ([], io_EOF)),
      strings_TrimSpace = sample_TrimSpace,
      DecodeHeader = (\<lambda>x. Inr x)\<rparr>"

section \<open>Properties\<close>

subsection \<open>Prefixes and suffixes\<close>

lemma HasSuffix_append: "strings_HasSuffix (p @ x) x"
  by (simp add: strings_HasSuffix_def)

lemma HasSuffix_iff: "strings_HasSuffix s x \<longleftrightarrow> (\<exists>p. s = p @ x)"
proof
  assume h: "strings_HasSuffix s x"
  then have "s = take (length s - length x) s @ x"
    by (metis append_take_drop_id strings_HasSuffix_def)
  then show "\<exists>p. s = p @ x" ..
next
  assume "\<exists>p. s = p @ x"
  then show "strings_HasSuffix s x" by (auto simp: HasSuffix_append)
qed

lemma TrimSuffix_append: "strings_TrimSuffix (p @ x) x = p"
  by (simp add: strings_TrimSuffix_def HasSuffix_append)

lemma HasPrefix_append: "strings_HasPrefix (p @ r) p"
  by (simp add: strings_HasPrefix_def)

lemma HasPrefix_iff: "strings_HasPrefix s p \<longleftrightarrow> (\<exists>r. s = p @ r)"
proof
  assume h: "strings_HasPrefix s p"
  then have "s = p @ drop (length p) s"
    by (metis append_take_drop_id strings_HasPrefix_def)
  then show "\<exists>r. s = p @ r" ..
next
  assume "\<exists>r. s = p @ r"
  then show "strings_HasPrefix s p" by (auto simp: HasPrefix_append)
qed

lemma TrimPrefix_append: "strings_TrimPrefix (p @ r) p = r"
  by (simp add: strings_TrimPrefix_def HasPrefix_append)

subsection \<open>What \<^verbatim>\<open>Rcpt\<close> returns\<close>

lemma Rcpt_fn_accepts:
  assumes "mail_ParseAddressList l to = Inr [a]"
    and "accepted_form l (config b) (Address a) t"
  shows "Rcpt_fn l to s b = (Returns None, s\<lparr>topic := t\<rparr>, b)"
proof -
  let ?c = "config b"
  have addr: "Address a = (SMTPServerAddrPrefix ?c @ t) @ (''@'' @ SMTPServerDomain ?c)"
    using assms(2) by (simp add: accepted_form_def)
  have m: "topicRegex_MatchString l t"
    using assms(2) by (simp add: accepted_form_def)
  have suf: "strings_HasSuffix (Address a) (''@'' @ SMTPServerDomain ?c)"
    unfolding addr by (rule HasSuffix_append)
  have trim: "strings_TrimSuffix (Address a) (''@'' @ SMTPServerDomain ?c) =
      SMTPServerAddrPrefix ?c @ t"
    unfolding addr by (rule TrimSuffix_append)
  show ?thesis
    using assms(1) m suf trim
    by (simp add: Rcpt_fn_def Let_def HasPrefix_append TrimPrefix_append)
qed

lemma Rcpt_fn_nil_form:
  assumes "Rcpt_fn l to s b = (Returns None, s', b')"
  shows "\<exists>a t. mail_ParseAddressList l to = Inr [a] \<and>
           accepted_form l (config b) (Address a) t"
proof -
  let ?c = "config b"
  let ?d = "''@'' @ SMTPServerDomain ?c"
  obtain a where pa: "mail_ParseAddressList l to = Inr [a]"
    using assms by (auto simp: Rcpt_fn_def Let_def split: sum.splits list.splits)
  have suf: "strings_HasSuffix (Address a) ?d"
    using assms pa by (auto simp: Rcpt_fn_def Let_def split: if_splits)
  then obtain u where u: "Address a = u @ ?d"
    using HasSuffix_iff by blast
  have tu: "strings_TrimSuffix (Address a) ?d = u"
    unfolding u by (rule TrimSuffix_append)
  show ?thesis
  proof (cases "SMTPServerAddrPrefix ?c = []")
    case True
    then have "topicRegex_MatchString l u"
      using assms pa suf tu by (auto simp: Rcpt_fn_def Let_def split: if_splits)
    then have "accepted_form l ?c (Address a) u"
      using True u by (simp add: accepted_form_def)
    then show ?thesis using pa by blast
  next
    case False
    then have pre: "strings_HasPrefix u (SMTPServerAddrPrefix ?c)"
      using assms pa suf tu by (auto simp: Rcpt_fn_def Let_def split: if_splits)
    then obtain t where t: "u = SMTPServerAddrPrefix ?c @ t"
      using HasPrefix_iff by blast
    have tt: "strings_TrimPrefix u (SMTPServerAddrPrefix ?c) = t"
      unfolding t by (rule TrimPrefix_append)
    have "topicRegex_MatchString l t"
      using assms pa suf tu pre tt False
      by (auto simp: Rcpt_fn_def Let_def split: if_splits)
    then have "accepted_form l ?c (Address a) t"
      using t u by (simp add: accepted_form_def)
    then show ?thesis using pa by blast
  qed
qed

lemma Rcpt_fn_session:
  "Rcpt_fn l to s b = (out, s', b') \<Longrightarrow> out \<noteq> Returns None \<Longrightarrow> s' = s"
  by (auto simp: Rcpt_fn_def Let_def split: sum.splits list.splits if_splits)

lemma Rcpt_fn_backend: "Rcpt_fn l to s b = (out, s', b') \<Longrightarrow> b' = b"
  by (auto simp: Rcpt_fn_def Let_def split: sum.splits list.splits if_splits)

lemma Rcpt_fn_error_kind:
  "Rcpt_fn l to s b = (out, s', b') \<Longrightarrow> out \<noteq> Returns None \<Longrightarrow>
   \<exists>err. out = Returns (Some err) \<and>
     (mail_ParseAddressList l to = Inl err \<or>
      err \<in> {errTooManyRecipients, errInvalidDomain, errInvalidAddress, errInvalidTopic})"
  by (auto simp: Rcpt_fn_def Let_def split: sum.splits list.splits if_splits)

text \<open>
  The recipient \<^verbatim>\<open>Bob <ntfy-mytopic@ntfy.sh>\<close>, which the parser reads as the one
  address \<^verbatim>\<open>ntfy-mytopic@ntfy.sh\<close> with display name \<^verbatim>\<open>Bob\<close>. The string neither
  begins with the prefix \<^verbatim>\<open>ntfy-\<close> nor ends with \<^verbatim>\<open>@ntfy.sh\<close>, so it is not prefix,
  topic, \<^verbatim>\<open>@\<close>, domain; yet \<^verbatim>\<open>Rcpt\<close> returns \<^verbatim>\<open>nil\<close> and stores the topic \<^verbatim>\<open>mytopic\<close>.
\<close>

theorem Rcpt_recipient_shape_counterexample:
  "\<not> strings_HasPrefix ''Bob <ntfy-mytopic@ntfy.sh>'' (SMTPServerAddrPrefix (config sample_backend)) \<and>
   \<not> strings_HasSuffix ''Bob <ntfy-mytopic@ntfy.sh>''
       (''@'' @ SMTPServerDomain (config sample_backend)) \<and>
   mail_ParseAddressList sample_lib ''Bob <ntfy-mytopic@ntfy.sh>'' =
     Inr [\<lparr>Name = ''Bob'', Address = ''ntfy-mytopic@ntfy.sh''\<rparr>] \<and>
   Rcpt sample_lib ''Bob <ntfy-mytopic@ntfy.sh>'' \<lparr>topic = ''old''\<rparr> sample_backend =
     (Returns None, \<lparr>topic = ''mytopic''\<rparr>, sample_backend)"
  by (simp add: Rcpt_def withFailCount_def Rcpt_fn_def strings_HasSuffix_def
      strings_TrimSuffix_def strings_HasPrefix_def strings_TrimPrefix_def sample_lib_def
      sample_backend_def sample_conf_def sample_topic_char_def)

text \<open>
  C1, amended. The form is that of the address which \<^verbatim>\<open>mail.ParseAddressList\<close> reads
  from the recipient string. When the parser yields exactly one address and it is
  prefix, topic, \<^verbatim>\<open>@\<close>, domain with the topic matching the pattern, \<^verbatim>\<open>Rcpt\<close> returns
  \<^verbatim>\<open>nil\<close> and the session's topic is exactly that topic. For every other recipient
  string (the parser fails, yields another number of addresses, or yields an
  address of another form) \<^verbatim>\<open>Rcpt\<close> returns an error, which is the parser's own
  error or one of \<^verbatim>\<open>errTooManyRecipients\<close>, \<^verbatim>\<open>errInvalidDomain\<close>,
  \<^verbatim>\<open>errInvalidAddress\<close>, \<^verbatim>\<open>errInvalidTopic\<close>, and the session is as it was.
\<close>

theorem Rcpt_resolves_topic:
  "(mail_ParseAddressList l to = Inr [a] \<and> accepted_form l (config b) (Address a) t \<longrightarrow>
      Rcpt l to s b = (Returns None, s\<lparr>topic := t\<rparr>, b)) \<and>
   ((\<forall>a' t'. \<not> (mail_ParseAddressList l to = Inr [a'] \<and>
                  accepted_form l (config b) (Address a') t')) \<longrightarrow>
      (\<exists>err. fst (Rcpt l to s b) = Returns (Some err) \<and>
         (mail_ParseAddressList l to = Inl err \<or>
          err \<in> {errTooManyRecipients, errInvalidDomain, errInvalidAddress, errInvalidTopic}) \<and>
         fst (snd (Rcpt l to s b)) = s))"
proof (intro conjI impI)
  assume "mail_ParseAddressList l to = Inr [a] \<and> accepted_form l (config b) (Address a) t"
  then have "Rcpt_fn l to s b = (Returns None, s\<lparr>topic := t\<rparr>, b)"
    by (simp add: Rcpt_fn_accepts)
  then show "Rcpt l to s b = (Returns None, s\<lparr>topic := t\<rparr>, b)"
    by (simp add: Rcpt_def withFailCount_def)
next
  assume no: "\<forall>a' t'. \<not> (mail_ParseAddressList l to = Inr [a'] \<and>
      accepted_form l (config b) (Address a') t')"
  obtain out s' b' where r: "Rcpt_fn l to s b = (out, s', b')"
    by (cases "Rcpt_fn l to s b") auto
  have ne: "out \<noteq> Returns None"
    using no r Rcpt_fn_nil_form by blast
  obtain err where err: "out = Returns (Some err)"
    "mail_ParseAddressList l to = Inl err \<or>
     err \<in> {errTooManyRecipients, errInvalidDomain, errInvalidAddress, errInvalidTopic}"
    using Rcpt_fn_error_kind [OF r ne] by blast
  have "s' = s" using Rcpt_fn_session [OF r ne] .
  then have "fst (Rcpt l to s b) = Returns (Some err) \<and> fst (snd (Rcpt l to s b)) = s"
    using r err(1) by (simp add: Rcpt_def withFailCount_def)
  then show "\<exists>err. fst (Rcpt l to s b) = Returns (Some err) \<and>
         (mail_ParseAddressList l to = Inl err \<or>
          err \<in> {errTooManyRecipients, errInvalidDomain, errInvalidAddress, errInvalidTopic}) \<and>
         fst (snd (Rcpt l to s b)) = s"
    using err(2) by blast
qed

theorem Rcpt_resolves_topic_witness:
  "(mail_ParseAddressList sample_lib ''ntfy-mytopic@ntfy.sh'' =
      Inr [\<lparr>Name = [], Address = ''ntfy-mytopic@ntfy.sh''\<rparr>] \<and>
    accepted_form sample_lib (config sample_backend) ''ntfy-mytopic@ntfy.sh'' ''mytopic'') \<and>
   Rcpt sample_lib ''ntfy-mytopic@ntfy.sh'' \<lparr>topic = ''old''\<rparr> sample_backend =
     (Returns None, \<lparr>topic = ''mytopic''\<rparr>, sample_backend) \<and>
   (\<forall>a' t'. \<not> (mail_ParseAddressList sample_lib ''mytopic@example.com'' = Inr [a'] \<and>
       accepted_form sample_lib (config sample_backend) (Address a') t')) \<and>
   (\<exists>err. fst (Rcpt sample_lib ''mytopic@example.com'' \<lparr>topic = ''old''\<rparr> sample_backend) =
            Returns (Some err) \<and>
      (mail_ParseAddressList sample_lib ''mytopic@example.com'' = Inl err \<or>
       err \<in> {errTooManyRecipients, errInvalidDomain, errInvalidAddress, errInvalidTopic}) \<and>
      fst (snd (Rcpt sample_lib ''mytopic@example.com'' \<lparr>topic = ''old''\<rparr> sample_backend)) =
        \<lparr>topic = ''old''\<rparr>)"
proof -
  have h1: "mail_ParseAddressList sample_lib ''ntfy-mytopic@ntfy.sh'' =
      Inr [\<lparr>Name = [], Address = ''ntfy-mytopic@ntfy.sh''\<rparr>] \<and>
    accepted_form sample_lib (config sample_backend)
      (Address \<lparr>Name = [], Address = ''ntfy-mytopic@ntfy.sh''\<rparr>) ''mytopic''"
    by (simp add: accepted_form_def sample_lib_def sample_backend_def sample_conf_def
        sample_topic_char_def)
  have h2: "\<forall>a' t'. \<not> (mail_ParseAddressList sample_lib ''mytopic@example.com'' = Inr [a'] \<and>
       accepted_form sample_lib (config sample_backend) (Address a') t')"
    by (auto simp: accepted_form_def sample_lib_def sample_backend_def sample_conf_def)
  note t1 = Rcpt_resolves_topic [of sample_lib "''ntfy-mytopic@ntfy.sh''"
      "\<lparr>Name = [], Address = ''ntfy-mytopic@ntfy.sh''\<rparr>" sample_backend "''mytopic''"
      "\<lparr>topic = ''old''\<rparr>", THEN conjunct1, THEN mp, OF h1]
  note t2 = Rcpt_resolves_topic [of sample_lib "''mytopic@example.com''" _ sample_backend _
      "\<lparr>topic = ''old''\<rparr>", THEN conjunct2, THEN mp, OF h2]
  show ?thesis using h1 h2 t1 t2 by simp
qed

subsection \<open>What \<^verbatim>\<open>Data\<close> hands to the publisher\<close>

lemma Data_fn_hands:
  assumes "io_ReadAll r = Inr raw"
    and "mail_ReadMessage l raw = Inr msg"
    and "readMailBody l msg = Inr body0"
    and "0 \<le> MessageLimit (config b)"
    and "populated_title l msg = Inr title0"
    and "m = swap_rule (topic s) title0
               (cut (MessageLimit (config b)) (strings_TrimSpace l body0))"
  shows "Data_fn l r s b =
     (case sub b m of
        Some err \<Rightarrow> (Returns (Some err), s, b\<lparr>handed := handed b @ [m]\<rparr>)
      | None \<Rightarrow> (Returns None, s, b\<lparr>handed := handed b @ [m], success := success b + 1\<rparr>))"
proof -
  define c where "c = cut (MessageLimit (config b)) (strings_TrimSpace l body0)"
  define subject where "subject = strings_TrimSpace l (Header_Get (Header msg) ''Subject'')"
  have no_panic: "\<not> (int (length (strings_TrimSpace l body0)) > MessageLimit (config b) \<and>
      MessageLimit (config b) < 0)"
    using assms(4) by simp
  have c: "(if int (length (strings_TrimSpace l body0)) > MessageLimit (config b)
            then take (nat (MessageLimit (config b))) (strings_TrimSpace l body0)
            else strings_TrimSpace l body0) = c"
    by (simp add: c_def cut_def)
  have populated:
    "(if subject \<noteq> []
      then (case DecodeHeader l subject of
              Inl err \<Rightarrow> Inl err
            | Inr subject' \<Rightarrow> Inr ((newDefaultMessage (topic s) c)\<lparr>Title := subject'\<rparr>))
      else Inr (newDefaultMessage (topic s) c)) =
     Inr \<lparr>Topic = topic s, Title = title0, Message = c\<rparr>"
    using assms(5)
    by (auto simp: populated_title_def subject_def [symmetric] Let_def newDefaultMessage_def)
  have swapped:
    "(if title0 \<noteq> [] \<and> c = []
      then \<lparr>Topic = topic s, Title = [], Message = title0\<rparr>
      else \<lparr>Topic = topic s, Title = title0, Message = c\<rparr>) = m"
    by (simp add: assms(6) swap_rule_def c_def [symmetric])
  have "Data_fn l r s b =
     (case sub b m of
        Some err \<Rightarrow> (Returns (Some err), s, b\<lparr>handed := handed b @ [m]\<rparr>)
      | None \<Rightarrow> (Returns None, s,
          b\<lparr>handed := handed b @ [m]\<rparr>\<lparr>success := success (b\<lparr>handed := handed b @ [m]\<rparr>) + 1\<rparr>))"
    unfolding Data_fn_def Let_def assms(1-3) sum.case if_not_P [OF no_panic] c
      subject_def [symmetric] populated
    by (simp only: message.simps swapped)
  then show ?thesis by (simp split: option.splits)
qed

lemma Data_hands:
  assumes "io_ReadAll r = Inr raw"
    and "mail_ReadMessage l raw = Inr msg"
    and "readMailBody l msg = Inr body0"
    and "0 \<le> MessageLimit (config b)"
    and "populated_title l msg = Inr title0"
    and "m = swap_rule (topic s) title0
               (cut (MessageLimit (config b)) (strings_TrimSpace l body0))"
  shows "Data l r s b =
     (case sub b m of
        Some err \<Rightarrow>
          (Returns (Some err), s, b\<lparr>handed := handed b @ [m], failure := failure b + 1\<rparr>)
      | None \<Rightarrow> (Returns None, s, b\<lparr>handed := handed b @ [m], success := success b + 1\<rparr>))"
  unfolding Data_def withFailCount_def Data_fn_hands [OF assms]
  by (simp split: option.splits)

lemma Data_fn_session: "Data_fn l r s b = (out, s', b') \<Longrightarrow> s' = s"
  by (auto simp: Data_fn_def Let_def split: sum.splits if_splits option.splits)

lemma withFailCount_session:
  "(\<And>out s' b'. fn s b = (out, s', b') \<Longrightarrow> s' = s) \<Longrightarrow> fst (snd (withFailCount fn s b)) = s"
  by (cases "fn s b") (auto simp: withFailCount_def split: outcome.splits)

subsection \<open>The sample mails, evaluated\<close>

lemmas sample_defs = sample_lib_def sample_backend_def sample_conf_def sample_topic_char_def
  sample_TrimSpace_def sample_ascii_space_def crlf_def

lemmas raw_defs = raw_hello_def raw_world_def raw_hi_world_def raw_long_body_def
  raw_long_subject_def

lemma sample_ReadMessage:
  "mail_ReadMessage sample_lib raw_hello = Inr msg_hello"
  "mail_ReadMessage sample_lib raw_world = Inr msg_world"
  "mail_ReadMessage sample_lib raw_hi_world = Inr msg_hi_world"
  "mail_ReadMessage sample_lib raw_long_body = Inr msg_long_body"
  "mail_ReadMessage sample_lib raw_long_subject = Inr msg_long_subject"
  by (simp_all add: sample_lib_def raw_defs crlf_def)

lemma sample_readMailBody:
  "readMailBody sample_lib msg_hello = Inr []"
  "readMailBody sample_lib msg_world = Inr ''World''"
  "readMailBody sample_lib msg_hi_world = Inr ''World''"
  "readMailBody sample_lib msg_long_body = Inr (''  Hello World '' @ crlf)"
  "readMailBody sample_lib msg_long_subject = Inr (''  '' @ crlf)"
  by (simp_all add: readMailBody_def Header_Get_def io_ReadAll_def sample_lib_def
      msg_hello_def msg_world_def msg_hi_world_def msg_long_body_def msg_long_subject_def)

lemma sample_populated_title:
  "populated_title sample_lib msg_hello = Inr ''Hello''"
  "populated_title sample_lib msg_world = Inr []"
  "populated_title sample_lib msg_hi_world = Inr ''Hi''"
  "populated_title sample_lib msg_long_body = Inr ''Hi''"
  "populated_title sample_lib msg_long_subject = Inr ''Backup finished''"
  by (simp_all add: populated_title_def Header_Get_def sample_defs
      msg_hello_def msg_world_def msg_hi_world_def msg_long_body_def msg_long_subject_def)

lemma sample_TrimSpace:
  "strings_TrimSpace sample_lib [] = []"
  "strings_TrimSpace sample_lib ''World'' = ''World''"
  "strings_TrimSpace sample_lib (''  Hello World '' @ crlf) = ''Hello World''"
  "strings_TrimSpace sample_lib (''  '' @ crlf) = []"
  by (simp_all add: sample_defs)

lemma sample_limit: "MessageLimit (config sample_backend) = 5"
  by (simp add: sample_backend_def sample_conf_def)

lemma sample_sub: "sub sample_backend m = None"
  by (simp add: sample_backend_def)

lemma sample_handed: "handed sample_backend = []"
  by (simp add: sample_backend_def)

subsection \<open>The swap rule\<close>

text \<open>
  C4. When \<^verbatim>\<open>Data\<close> reaches the publisher, with the title populated from the decoded
  trimmed subject and the message from the trimmed, cut body, the message handed over
  has the title's value as its message and no title if the title is not empty and
  the message is empty, and has title and message as populated otherwise. The
  instances are the three of the specification: subject \<^verbatim>\<open>Hello\<close> with an empty
  body, no subject with body \<^verbatim>\<open>World\<close>, subject \<^verbatim>\<open>Hi\<close> with body \<^verbatim>\<open>World\<close>.
\<close>

theorem Data_swap_rule:
  assumes "io_ReadAll r = Inr raw"
    and "mail_ReadMessage l raw = Inr msg"
    and "readMailBody l msg = Inr body0"
    and "0 \<le> MessageLimit (config b)"
    and "populated_title l msg = Inr title0"
    and "message0 = cut (MessageLimit (config b)) (strings_TrimSpace l body0)"
  shows "handed (snd (snd (Data l r s b))) =
     handed b @
     [if title0 \<noteq> [] \<and> message0 = []
      then \<lparr>Topic = topic s, Title = [], Message = title0\<rparr>
      else \<lparr>Topic = topic s, Title = title0, Message = message0\<rparr>]"
  unfolding Data_hands [OF assms(1-5) refl] assms(6)
  by (simp add: swap_rule_def split: option.splits)

theorem Data_swap_rule_witness:
  "handed (snd (snd (Data sample_lib (Inr raw_hello) \<lparr>topic = ''mytopic''\<rparr> sample_backend))) =
     [\<lparr>Topic = ''mytopic'', Title = [], Message = ''Hello''\<rparr>] \<and>
   handed (snd (snd (Data sample_lib (Inr raw_world) \<lparr>topic = ''mytopic''\<rparr> sample_backend))) =
     [\<lparr>Topic = ''mytopic'', Title = [], Message = ''World''\<rparr>] \<and>
   handed (snd (snd (Data sample_lib (Inr raw_hi_world) \<lparr>topic = ''mytopic''\<rparr> sample_backend))) =
     [\<lparr>Topic = ''mytopic'', Title = ''Hi'', Message = ''World''\<rparr>]"
proof -
  have lim: "0 \<le> MessageLimit (config sample_backend)"
    by (simp add: sample_limit)
  have rd: "io_ReadAll (Inr raw) = Inr raw" for raw
    by (simp add: io_ReadAll_def)
  note a = Data_swap_rule [OF rd sample_ReadMessage(1) sample_readMailBody(1) lim
      sample_populated_title(1) refl, of "\<lparr>topic = ''mytopic''\<rparr>"]
  note b = Data_swap_rule [OF rd sample_ReadMessage(2) sample_readMailBody(2) lim
      sample_populated_title(2) refl, of "\<lparr>topic = ''mytopic''\<rparr>"]
  note c = Data_swap_rule [OF rd sample_ReadMessage(3) sample_readMailBody(3) lim
      sample_populated_title(3) refl, of "\<lparr>topic = ''mytopic''\<rparr>"]
  show ?thesis
    using a b c by (simp add: sample_TrimSpace sample_limit sample_handed cut_def)
qed

subsection \<open>Truncation\<close>

text \<open>
  The mail with subject \<^verbatim>\<open>Hello\<close> and an empty body: the trimmed body is empty, which
  is under the limit of 5, and the message handed over is \<^verbatim>\<open>Hello\<close>, not the trimmed
  body.
\<close>

theorem Data_truncation_counterexample:
  "mail_ReadMessage sample_lib raw_hello = Inr msg_hello \<and>
   readMailBody sample_lib msg_hello = Inr [] \<and>
   int (length (strings_TrimSpace sample_lib [])) \<le> MessageLimit (config sample_backend) \<and>
   handed (snd (snd (Data sample_lib (Inr raw_hello) \<lparr>topic = ''mytopic''\<rparr> sample_backend))) =
     [\<lparr>Topic = ''mytopic'', Title = [], Message = ''Hello''\<rparr>] \<and>
   ''Hello'' \<noteq> strings_TrimSpace sample_lib []"
proof -
  have rd: "io_ReadAll (Inr raw_hello) = Inr raw_hello"
    by (simp add: io_ReadAll_def)
  have lim: "0 \<le> MessageLimit (config sample_backend)"
    by (simp add: sample_limit)
  have "Data sample_lib (Inr raw_hello) \<lparr>topic = ''mytopic''\<rparr> sample_backend =
      (Returns None, \<lparr>topic = ''mytopic''\<rparr>,
       sample_backend\<lparr>handed := handed sample_backend @
          [\<lparr>Topic = ''mytopic'', Title = [], Message = ''Hello''\<rparr>],
          success := success sample_backend + 1\<rparr>)"
    unfolding Data_hands [OF rd sample_ReadMessage(1) sample_readMailBody(1) lim
        sample_populated_title(1) refl]
    by (simp add: sample_sub sample_TrimSpace sample_limit cut_def swap_rule_def)
  then show ?thesis
    by (simp add: sample_ReadMessage sample_readMailBody sample_TrimSpace sample_limit
        sample_handed)
qed

text \<open>
  C5, amended. Under a limit that is not negative, when \<^verbatim>\<open>Data\<close> reaches the publisher:
  if the trimmed body is longer than the limit, and the limit is positive or the
  title is empty, the message handed over is the first \<open>limit\<close> bytes of the trimmed
  body and has length exactly the limit; if the trimmed body is at or under the
  limit, and it is not empty or the title is empty, the message is the trimmed body
  unchanged. (In the cases left out the cut body is empty and the title is not, and
  the swap rule makes the title the message.)
\<close>

theorem Data_truncates_body:
  assumes "io_ReadAll r = Inr raw"
    and "mail_ReadMessage l raw = Inr msg"
    and "readMailBody l msg = Inr body0"
    and "0 \<le> MessageLimit (config b)"
    and "populated_title l msg = Inr title0"
    and "tb = strings_TrimSpace l body0"
    and "limit = MessageLimit (config b)"
  shows "\<exists>m. handed (snd (snd (Data l r s b))) = handed b @ [m] \<and>
     (int (length tb) > limit \<and> (0 < limit \<or> title0 = []) \<longrightarrow>
        int (length (Message m)) = limit \<and> Message m = take (nat limit) tb) \<and>
     (int (length tb) \<le> limit \<and> (tb \<noteq> [] \<or> title0 = []) \<longrightarrow> Message m = tb)"
proof -
  define m where "m = swap_rule (topic s) title0 (cut limit tb)"
  have m: "m = swap_rule (topic s) title0
      (cut (MessageLimit (config b)) (strings_TrimSpace l body0))"
    by (simp add: m_def assms(6,7))
  have h: "handed (snd (snd (Data l r s b))) = handed b @ [m]"
    unfolding Data_hands [OF assms(1-5) m] by (simp split: option.splits)
  have long: "int (length (Message m)) = limit \<and> Message m = take (nat limit) tb"
    if "int (length tb) > limit" "0 < limit \<or> title0 = []"
  proof -
    have lim0: "0 \<le> limit" using assms(4,7) by simp
    have c: "cut limit tb = take (nat limit) tb"
      using that(1) by (simp add: cut_def)
    have len: "int (length (take (nat limit) tb)) = limit"
      using that(1) lim0 by simp
    have "title0 = [] \<or> take (nat limit) tb \<noteq> []"
      using that(2) len by auto
    then have "Message m = take (nat limit) tb"
      by (auto simp: m_def swap_rule_def c)
    then show ?thesis using len by simp
  qed
  have short: "Message m = tb" if "int (length tb) \<le> limit" "tb \<noteq> [] \<or> title0 = []"
  proof -
    have c: "cut limit tb = tb"
      using that(1) by (simp add: cut_def)
    show ?thesis
      using that(2) by (auto simp: m_def swap_rule_def c)
  qed
  show ?thesis
    using h long short by blast
qed

theorem Data_truncates_body_witness:
  "int (length (strings_TrimSpace sample_lib (''  Hello World '' @ crlf))) >
     MessageLimit (config sample_backend) \<and>
   0 < MessageLimit (config sample_backend) \<and>
   (\<exists>m. handed (snd (snd (Data sample_lib (Inr raw_long_body) \<lparr>topic = ''mytopic''\<rparr>
            sample_backend))) = [m] \<and>
        int (length (Message m)) = 5 \<and> Message m = ''Hello'') \<and>
   int (length (strings_TrimSpace sample_lib ''World'')) \<le> MessageLimit (config sample_backend) \<and>
   (\<exists>m. handed (snd (snd (Data sample_lib (Inr raw_hi_world) \<lparr>topic = ''mytopic''\<rparr>
            sample_backend))) = [m] \<and>
        Message m = ''World'')"
proof -
  have lim: "0 \<le> MessageLimit (config sample_backend)"
    by (simp add: sample_limit)
  have rd: "io_ReadAll (Inr raw) = Inr raw" for raw
    by (simp add: io_ReadAll_def)
  note a = Data_truncates_body [OF rd sample_ReadMessage(4) sample_readMailBody(4) lim
      sample_populated_title(4) refl refl, of "\<lparr>topic = ''mytopic''\<rparr>"]
  note b = Data_truncates_body [OF rd sample_ReadMessage(3) sample_readMailBody(3) lim
      sample_populated_title(3) refl refl, of "\<lparr>topic = ''mytopic''\<rparr>"]
  show ?thesis
    using a b unfolding sample_TrimSpace by (simp add: sample_limit sample_handed)
qed

subsection \<open>The limit after the swap\<close>

text \<open>
  C9. The limit is not applied after the swap. When the body trims to the empty
  string and the decoded subject is longer than the limit, the message handed to the
  publisher is the whole subject, longer than the limit. The instance is a mail with
  subject \<^verbatim>\<open>Backup finished\<close> and a body of white space under the limit 5.
\<close>

theorem Data_swap_exceeds_limit:
  assumes "io_ReadAll r = Inr raw"
    and "mail_ReadMessage l raw = Inr msg"
    and "readMailBody l msg = Inr body0"
    and "0 \<le> MessageLimit (config b)"
    and "populated_title l msg = Inr title0"
    and "strings_TrimSpace l body0 = []"
    and "int (length title0) > MessageLimit (config b)"
  shows "\<exists>m. handed (snd (snd (Data l r s b))) = handed b @ [m] \<and>
     Message m = title0 \<and> int (length (Message m)) > MessageLimit (config b)"
proof -
  define m where "m = swap_rule (topic s) title0
      (cut (MessageLimit (config b)) (strings_TrimSpace l body0))"
  have h: "handed (snd (snd (Data l r s b))) = handed b @ [m]"
    unfolding Data_hands [OF assms(1-5) m_def] by (simp split: option.splits)
  have "title0 \<noteq> []" using assms(4,7) by auto
  then have "Message m = title0"
    using assms(4) by (simp add: m_def swap_rule_def cut_def assms(6))
  then show ?thesis using h assms(7) by simp
qed

theorem Data_swap_exceeds_limit_witness:
  "strings_TrimSpace sample_lib (''  '' @ crlf) = [] \<and>
   int (length ''Backup finished'') > MessageLimit (config sample_backend) \<and>
   (\<exists>m. handed (snd (snd (Data sample_lib (Inr raw_long_subject) \<lparr>topic = ''mytopic''\<rparr>
            sample_backend))) = [m] \<and>
        Message m = ''Backup finished'' \<and>
        int (length (Message m)) > MessageLimit (config sample_backend))"
proof -
  have lim: "0 \<le> MessageLimit (config sample_backend)"
    by (simp add: sample_limit)
  have rd: "io_ReadAll (Inr raw_long_subject) = Inr raw_long_subject"
    by (simp add: io_ReadAll_def)
  have long: "int (length ''Backup finished'') > MessageLimit (config sample_backend)"
    by (simp add: sample_limit)
  note a = Data_swap_exceeds_limit [OF rd sample_ReadMessage(5) sample_readMailBody(5) lim
      sample_populated_title(5) sample_TrimSpace(4) long, of "\<lparr>topic = ''mytopic''\<rparr>"]
  show ?thesis
    using a long unfolding sample_TrimSpace by (simp add: sample_handed)
qed

subsection \<open>\<^verbatim>\<open>Data\<close> without a topic\<close>

text \<open>
  C10. \<^verbatim>\<open>Data\<close> does not check the topic. On a session whose topic is empty, with a
  mail that parses, has media type \<^verbatim>\<open>text/plain\<close>, a readable body and a subject that
  decodes, \<^verbatim>\<open>Data\<close> hands the publisher a message whose topic is the empty string,
  and returns what the publisher returns.
\<close>

theorem Data_without_topic:
  assumes "topic s = []"
    and "io_ReadAll r = Inr raw"
    and "mail_ReadMessage l raw = Inr msg"
    and "mime_ParseMediaType l (Header_Get (Header msg) ''Content-Type'') =
           Inr (''text/plain'', params)"
    and "io_ReadAll (Body msg) = Inr body0"
    and "populated_title l msg = Inr title0"
    and "0 \<le> MessageLimit (config b)"
  shows "\<exists>m. Topic m = [] \<and> fst (Data l r s b) = Returns (sub b m) \<and>
     handed (snd (snd (Data l r s b))) = handed b @ [m]"
proof -
  define m where "m = swap_rule (topic s) title0
      (cut (MessageLimit (config b)) (strings_TrimSpace l body0))"
  have body: "readMailBody l msg = Inr body0"
    using assms(4,5) by (simp add: readMailBody_def)
  have "Topic m = []"
    using assms(1) by (simp add: m_def swap_rule_def)
  moreover have "fst (Data l r s b) = Returns (sub b m) \<and>
      handed (snd (snd (Data l r s b))) = handed b @ [m]"
    unfolding Data_hands [OF assms(2,3) body assms(7,6) m_def]
    by (simp split: option.splits)
  ultimately show ?thesis by blast
qed

theorem Data_without_topic_witness:
  "topic \<lparr>topic = []\<rparr> = [] \<and>
   mime_ParseMediaType sample_lib (Header_Get (Header msg_hi_world) ''Content-Type'') =
     Inr (''text/plain'', Map.empty) \<and>
   (\<exists>m. Topic m = [] \<and>
      fst (Data sample_lib (Inr raw_hi_world) \<lparr>topic = []\<rparr> sample_backend) = Returns None \<and>
      handed (snd (snd (Data sample_lib (Inr raw_hi_world) \<lparr>topic = []\<rparr> sample_backend))) = [m])"
proof -
  have lim: "0 \<le> MessageLimit (config sample_backend)"
    by (simp add: sample_limit)
  have rd: "io_ReadAll (Inr raw_hi_world) = Inr raw_hi_world"
    by (simp add: io_ReadAll_def)
  have tp: "topic \<lparr>topic = []\<rparr> = []" by simp
  have ct: "mime_ParseMediaType sample_lib (Header_Get (Header msg_hi_world) ''Content-Type'') =
     Inr (''text/plain'', Map.empty)"
    by (simp add: sample_lib_def msg_hi_world_def Header_Get_def)
  have bd: "io_ReadAll (Body msg_hi_world) = Inr ''World''"
    by (simp add: io_ReadAll_def msg_hi_world_def)
  note a = Data_without_topic [OF tp rd sample_ReadMessage(3) ct bd sample_populated_title(3) lim]
  show ?thesis
    using a ct by (simp add: sample_sub sample_handed)
qed

subsection \<open>The topic after \<^verbatim>\<open>Data\<close>\<close>

text \<open>
  A session with topic \<^verbatim>\<open>mytopic\<close> and the mail with subject \<^verbatim>\<open>Hi\<close> and body
  \<^verbatim>\<open>World\<close>: \<^verbatim>\<open>Data\<close> returns \<^verbatim>\<open>nil\<close> and the topic is still \<^verbatim>\<open>mytopic\<close>.
\<close>

theorem Data_success_topic_counterexample:
  "fst (Data sample_lib (Inr raw_hi_world) \<lparr>topic = ''mytopic''\<rparr> sample_backend) = Returns None \<and>
   topic (fst (snd (Data sample_lib (Inr raw_hi_world) \<lparr>topic = ''mytopic''\<rparr> sample_backend))) =
     ''mytopic'' \<and>
   topic (fst (snd (Data sample_lib (Inr raw_hi_world) \<lparr>topic = ''mytopic''\<rparr> sample_backend))) \<noteq> []"
proof -
  have rd: "io_ReadAll (Inr raw_hi_world) = Inr raw_hi_world"
    by (simp add: io_ReadAll_def)
  have lim: "0 \<le> MessageLimit (config sample_backend)"
    by (simp add: sample_limit)
  show ?thesis
    unfolding Data_hands [OF rd sample_ReadMessage(3) sample_readMailBody(3) lim
        sample_populated_title(3) refl]
    by (simp add: sample_sub)
qed

text \<open>
  C2, amended. \<^verbatim>\<open>Data\<close> does not clear the session's topic: after every call,
  whether it returns \<^verbatim>\<open>nil\<close> or an error, the topic is what it was before the call.
\<close>

theorem Data_keeps_topic: "topic (fst (snd (Data l r s b))) = topic s"
proof -
  have "fst (snd (Data l r s b)) = s"
    unfolding Data_def by (rule withFailCount_session) (rule Data_fn_session)
  then show ?thesis by simp
qed

subsection \<open>The scan of a multipart mail\<close>

lemma loop_skips_other_parts:
  "\<forall>p\<in>set pre. other_part l p \<Longrightarrow>
   readMailBody_loop l (pre @ rest) e = readMailBody_loop l rest e"
proof (induction pre)
  case Nil
  show ?case by simp
next
  case (Cons p pre)
  have "other_part l p" using Cons.prems by simp
  then obtain t ps where
    "mime_ParseMediaType l (Header_Get (PartHeader p) ''Content-Type'') = Inr (t, ps)"
    "t \<noteq> ''text/plain''"
    by (auto simp: other_part_def part_media_type_def split: sum.splits option.splits)
  then show ?case using Cons by simp
qed

lemma loop_at_text_plain:
  "part_media_type l A = Some ''text/plain'' \<Longrightarrow>
   readMailBody_loop l (A # post) e = io_ReadAll (PartBody A)"
  by (auto simp: part_media_type_def split: sum.splits)

lemma loop_at_unparsed:
  "mime_ParseMediaType l (Header_Get (PartHeader Q) ''Content-Type'') = Inl err \<Longrightarrow>
   readMailBody_loop l (Q # post) e = Inl err"
  by simp

lemma loop_without_text_plain:
  "\<forall>p\<in>set parts. part_media_type l p \<noteq> Some ''text/plain'' \<Longrightarrow>
   \<exists>err. readMailBody_loop l parts e = Inl err"
  by (induction parts) (auto simp: part_media_type_def split: sum.splits)

lemma readMailBody_multipart:
  assumes "mime_ParseMediaType l (Header_Get (Header msg) ''Content-Type'') = Inr (ct, params)"
    and "strings_HasPrefix ct ''multipart/''"
    and "multipart_NewReader l (Body msg) (params_get params ''boundary'') = (parts, e)"
  shows "readMailBody l msg = readMailBody_loop l parts e"
proof -
  have "ct \<noteq> ''text/plain''"
    using assms(2) by (auto simp: strings_HasPrefix_def)
  then show ?thesis
    using assms by (simp add: readMailBody_def)
qed

lemma sample_noheader:
  "mime_ParseMediaType sample_lib (Header_Get (Header msg_noheader_A) ''Content-Type'') =
     Inr (''multipart/alternative'', [''boundary'' \<mapsto> ''XX''])"
  "multipart_NewReader sample_lib (Body msg_noheader_A)
     (params_get [''boundary'' \<mapsto> ''XX''] ''boundary'') = ([part_no_header, part_A], io_EOF)"
  "mime_ParseMediaType sample_lib (Header_Get (PartHeader part_no_header) ''Content-Type'') =
     Inl (ExternalError ''mime: no media type'')"
  by (simp_all add: sample_lib_def msg_noheader_A_def Header_Get_def params_get_def
      body_noheader_A_def body_html_A_B_def body_html_only_def part_no_header_def crlf_def)

text \<open>
  The multipart mail whose parts are a part without a header and then the
  \<^verbatim>\<open>text/plain\<close> part \<open>A\<close>. The first part has no media type, so \<open>A\<close> is the first
  part whose media type is \<^verbatim>\<open>text/plain\<close>; \<^verbatim>\<open>readMailBody\<close> does not return its body
  but the error of parsing the first part's \<^verbatim>\<open>Content-Type\<close>.
\<close>

theorem readMailBody_skip_counterexample:
  "multipart_NewReader sample_lib (Body msg_noheader_A)
     (params_get [''boundary'' \<mapsto> ''XX''] ''boundary'') = ([part_no_header, part_A], io_EOF) \<and>
   part_media_type sample_lib part_no_header \<noteq> Some ''text/plain'' \<and>
   part_media_type sample_lib part_A = Some ''text/plain'' \<and>
   io_ReadAll (PartBody part_A) = Inr ''A'' \<and>
   readMailBody sample_lib msg_noheader_A = Inl (ExternalError ''mime: no media type'') \<and>
   readMailBody sample_lib msg_noheader_A \<noteq> io_ReadAll (PartBody part_A)"
proof -
  have pre: "strings_HasPrefix ''multipart/alternative'' ''multipart/''"
    by (simp add: strings_HasPrefix_def)
  have r: "readMailBody sample_lib msg_noheader_A = Inl (ExternalError ''mime: no media type'')"
    unfolding readMailBody_multipart [OF sample_noheader(1) pre sample_noheader(2)]
    by (rule loop_at_unparsed) (rule sample_noheader(3))
  have t: "part_media_type sample_lib part_no_header \<noteq> Some ''text/plain''"
    "part_media_type sample_lib part_A = Some ''text/plain''"
    by (simp_all add: part_media_type_def sample_noheader(3))
      (simp add: sample_lib_def Header_Get_def part_A_def)
  have a: "io_ReadAll (PartBody part_A) = Inr ''A''"
    by (simp add: io_ReadAll_def part_A_def)
  show ?thesis
    using r t a sample_noheader(2) by simp
qed

text \<open>
  C3, amended. For a mail whose media type begins with \<^verbatim>\<open>multipart/\<close>: when its
  parts are, in order, a \<^verbatim>\<open>text/html\<close> part, a \<^verbatim>\<open>text/plain\<close> part \<open>A\<close> and a
  \<^verbatim>\<open>text/plain\<close> part \<open>B\<close>, \<^verbatim>\<open>readMailBody\<close> returns what reading \<open>A\<close> gives. In
  general, when the \<^verbatim>\<open>Content-Type\<close> of every part before \<open>P\<close> parses to a media type
  other than \<^verbatim>\<open>text/plain\<close> and \<open>P\<close> has media type \<^verbatim>\<open>text/plain\<close>, it returns what
  reading \<open>P\<close> gives, whatever parts follow; and when the \<^verbatim>\<open>Content-Type\<close> of a part
  \<open>Q\<close> does not parse, after parts that are skipped in that way, it fails with that
  parse error, whatever parts follow.
\<close>

theorem readMailBody_first_text_plain:
  assumes "mime_ParseMediaType l (Header_Get (Header msg) ''Content-Type'') = Inr (ct, params)"
    and "strings_HasPrefix ct ''multipart/''"
    and "multipart_NewReader l (Body msg) (params_get params ''boundary'') = (parts, e)"
  shows "(parts = [H, A, B] \<and> part_media_type l H = Some ''text/html'' \<and>
          part_media_type l A = Some ''text/plain'' \<and>
          part_media_type l B = Some ''text/plain'' \<longrightarrow>
            readMailBody l msg = io_ReadAll (PartBody A)) \<and>
         (parts = pre @ P # post \<and> (\<forall>p\<in>set pre. other_part l p) \<and>
          part_media_type l P = Some ''text/plain'' \<longrightarrow>
            readMailBody l msg = io_ReadAll (PartBody P)) \<and>
         (parts = pre' @ Q # post' \<and> (\<forall>p\<in>set pre'. other_part l p) \<and>
          mime_ParseMediaType l (Header_Get (PartHeader Q) ''Content-Type'') = Inl err \<longrightarrow>
            readMailBody l msg = Inl err)"
proof (intro conjI impI)
  assume h: "parts = [H, A, B] \<and> part_media_type l H = Some ''text/html'' \<and>
          part_media_type l A = Some ''text/plain'' \<and>
          part_media_type l B = Some ''text/plain''"
  then have "\<forall>p\<in>set [H]. other_part l p"
    by (simp add: other_part_def)
  then have skip: "readMailBody_loop l ([H] @ A # [B]) e = readMailBody_loop l (A # [B]) e"
    by (rule loop_skips_other_parts)
  have at: "readMailBody_loop l (A # [B]) e = io_ReadAll (PartBody A)"
    using h by (intro loop_at_text_plain) simp
  have parts: "parts = [H] @ A # [B]"
    using h by simp
  show "readMailBody l msg = io_ReadAll (PartBody A)"
    unfolding readMailBody_multipart [OF assms] parts skip at ..
next
  assume h: "parts = pre @ P # post \<and> (\<forall>p\<in>set pre. other_part l p) \<and>
          part_media_type l P = Some ''text/plain''"
  then have skip: "readMailBody_loop l (pre @ P # post) e = readMailBody_loop l (P # post) e"
    by (simp add: loop_skips_other_parts)
  have at: "readMailBody_loop l (P # post) e = io_ReadAll (PartBody P)"
    using h by (intro loop_at_text_plain) simp
  have parts: "parts = pre @ P # post"
    using h by simp
  show "readMailBody l msg = io_ReadAll (PartBody P)"
    unfolding readMailBody_multipart [OF assms] parts skip at ..
next
  assume h: "parts = pre' @ Q # post' \<and> (\<forall>p\<in>set pre'. other_part l p) \<and>
          mime_ParseMediaType l (Header_Get (PartHeader Q) ''Content-Type'') = Inl err"
  then have skip: "readMailBody_loop l (pre' @ Q # post') e = readMailBody_loop l (Q # post') e"
    by (simp add: loop_skips_other_parts)
  have at: "readMailBody_loop l (Q # post') e = Inl err"
    using h by (intro loop_at_unparsed) simp
  have parts: "parts = pre' @ Q # post'"
    using h by simp
  show "readMailBody l msg = Inl err"
    unfolding readMailBody_multipart [OF assms] parts skip at ..
qed

lemma sample_multipart:
  "mime_ParseMediaType sample_lib (Header_Get (Header msg_html_A_B) ''Content-Type'') =
     Inr (''multipart/alternative'', [''boundary'' \<mapsto> ''XX''])"
  "mime_ParseMediaType sample_lib (Header_Get (Header msg_html_only) ''Content-Type'') =
     Inr (''multipart/alternative'', [''boundary'' \<mapsto> ''XX''])"
  "strings_HasPrefix ''multipart/alternative'' ''multipart/''"
  "multipart_NewReader sample_lib (Body msg_html_A_B)
     (params_get [''boundary'' \<mapsto> ''XX''] ''boundary'') = ([part_html, part_A, part_B], io_EOF)"
  "multipart_NewReader sample_lib (Body msg_html_only)
     (params_get [''boundary'' \<mapsto> ''XX''] ''boundary'') = ([part_html], io_EOF)"
  by (simp_all add: sample_lib_def msg_html_A_B_def msg_html_only_def Header_Get_def
      strings_HasPrefix_def params_get_def body_html_A_B_def body_html_only_def crlf_def)

lemma sample_part_types:
  "part_media_type sample_lib part_html = Some ''text/html''"
  "part_media_type sample_lib part_A = Some ''text/plain''"
  "part_media_type sample_lib part_B = Some ''text/plain''"
  by (simp_all add: part_media_type_def sample_lib_def Header_Get_def part_html_def part_A_def
      part_B_def)

theorem readMailBody_first_text_plain_witness:
  "([part_html, part_A, part_B] = [part_html, part_A, part_B] \<and>
    part_media_type sample_lib part_html = Some ''text/html'' \<and>
    part_media_type sample_lib part_A = Some ''text/plain'' \<and>
    part_media_type sample_lib part_B = Some ''text/plain'') \<and>
   ([part_html, part_A, part_B] = [part_html] @ part_A # [part_B] \<and>
    other_part sample_lib part_html) \<and>
   readMailBody sample_lib msg_html_A_B = Inr ''A'' \<and>
   ([part_no_header, part_A] = [] @ part_no_header # [part_A] \<and>
    mime_ParseMediaType sample_lib (Header_Get (PartHeader part_no_header) ''Content-Type'') =
      Inl (ExternalError ''mime: no media type'')) \<and>
   readMailBody sample_lib msg_noheader_A = Inl (ExternalError ''mime: no media type'')"
proof -
  have h1: "[part_html, part_A, part_B] = [part_html, part_A, part_B] \<and>
    part_media_type sample_lib part_html = Some ''text/html'' \<and>
    part_media_type sample_lib part_A = Some ''text/plain'' \<and>
    part_media_type sample_lib part_B = Some ''text/plain''"
    by (simp add: sample_part_types)
  have h2: "[part_html, part_A, part_B] = [part_html] @ part_A # [part_B] \<and>
    (\<forall>p\<in>set [part_html]. other_part sample_lib p) \<and>
    part_media_type sample_lib part_A = Some ''text/plain''"
    by (simp add: sample_part_types other_part_def)
  have h3: "[part_no_header, part_A] = [] @ part_no_header # [part_A] \<and>
    (\<forall>p\<in>set []. other_part sample_lib p) \<and>
    mime_ParseMediaType sample_lib (Header_Get (PartHeader part_no_header) ''Content-Type'') =
      Inl (ExternalError ''mime: no media type'')"
    by (simp add: sample_noheader(3))
  note t = readMailBody_first_text_plain [OF sample_multipart(1) sample_multipart(3)
      sample_multipart(4)]
  note u = readMailBody_first_text_plain [OF sample_noheader(1) sample_multipart(3)
      sample_noheader(2)]
  have a: "readMailBody sample_lib msg_html_A_B = io_ReadAll (PartBody part_A)"
    using t [THEN conjunct1, THEN mp, OF h1] .
  have b: "readMailBody sample_lib msg_html_A_B = io_ReadAll (PartBody part_A)"
    using t [THEN conjunct2, THEN conjunct1, THEN mp, OF h2] .
  have c: "readMailBody sample_lib msg_noheader_A = Inl (ExternalError ''mime: no media type'')"
    using u [THEN conjunct2, THEN conjunct2, THEN mp, OF h3] .
  show ?thesis
    using a b c h1 h2 h3 by (simp add: io_ReadAll_def part_A_def)
qed

text \<open>
  C7. For a mail whose media type begins with \<^verbatim>\<open>multipart/\<close> and none of whose parts
  has media type \<^verbatim>\<open>text/plain\<close>, \<^verbatim>\<open>readMailBody\<close> fails; when every part has a media
  type, the error is the one with which \<^verbatim>\<open>NextPart\<close> ended the parts (\<^verbatim>\<open>io.EOF\<close> after
  the closing boundary), unchanged.
\<close>

theorem readMailBody_no_text_plain:
  assumes "mime_ParseMediaType l (Header_Get (Header msg) ''Content-Type'') = Inr (ct, params)"
    and "strings_HasPrefix ct ''multipart/''"
    and "multipart_NewReader l (Body msg) (params_get params ''boundary'') = (parts, e)"
    and "\<forall>p\<in>set parts. part_media_type l p \<noteq> Some ''text/plain''"
  shows "(\<exists>err. readMailBody l msg = Inl err) \<and>
         ((\<forall>p\<in>set parts. other_part l p) \<longrightarrow> readMailBody l msg = Inl e)"
proof (intro conjI impI)
  show "\<exists>err. readMailBody l msg = Inl err"
    using loop_without_text_plain [OF assms(4)]
    by (simp add: readMailBody_multipart [OF assms(1-3)])
next
  assume "\<forall>p\<in>set parts. other_part l p"
  then have "readMailBody_loop l (parts @ []) e = readMailBody_loop l [] e"
    by (rule loop_skips_other_parts)
  then show "readMailBody l msg = Inl e"
    by (simp add: readMailBody_multipart [OF assms(1-3)])
qed

theorem readMailBody_no_text_plain_witness:
  "part_media_type sample_lib part_html \<noteq> Some ''text/plain'' \<and>
   other_part sample_lib part_html \<and>
   readMailBody sample_lib msg_html_only = Inl io_EOF"
proof -
  have h1: "\<forall>p\<in>set [part_html]. part_media_type sample_lib p \<noteq> Some ''text/plain''"
    by (simp add: sample_part_types)
  have h2: "\<forall>p\<in>set [part_html]. other_part sample_lib p"
    by (simp add: sample_part_types other_part_def)
  note t = readMailBody_no_text_plain [OF sample_multipart(2) sample_multipart(3)
      sample_multipart(5) h1]
  show ?thesis
    using t [THEN conjunct2, THEN mp, OF h2] h1 h2 by simp
qed

subsection \<open>The counters\<close>

lemma withFailCount_counts:
  assumes "fn s b = (out, s', b')"
  shows "withFailCount fn s b =
     (out, s', if (\<exists>e. out = Returns (Some e)) then b'\<lparr>failure := failure b' + 1\<rparr> else b')"
  using assms by (auto simp: withFailCount_def split: outcome.splits)

lemma Data_fn_counters:
  "Data_fn l r s b = (out, s', b') \<Longrightarrow>
   failure b' = failure b \<and>
   success b' = (if out = Returns None then success b + 1 else success b)"
  by (auto simp: Data_fn_def Let_def split: sum.splits if_splits option.splits)

text \<open>
  C6. A call of \<^verbatim>\<open>Rcpt\<close> or \<^verbatim>\<open>Data\<close> that returns an error adds one to \<^verbatim>\<open>failure\<close> and
  leaves \<^verbatim>\<open>success\<close> as it was; a call of \<^verbatim>\<open>Data\<close> that returns \<^verbatim>\<open>nil\<close> adds one to
  \<^verbatim>\<open>success\<close> and leaves \<^verbatim>\<open>failure\<close> as it was; a call of \<^verbatim>\<open>Rcpt\<close> that returns
  \<^verbatim>\<open>nil\<close> changes neither. The counters are \<^verbatim>\<open>int64\<close>, so adding one wraps around.
\<close>

theorem failure_and_success_counts:
  "(fst (Rcpt l to s b) = Returns (Some e) \<longrightarrow>
      failure (snd (snd (Rcpt l to s b))) = failure b + 1 \<and>
      success (snd (snd (Rcpt l to s b))) = success b) \<and>
   (fst (Rcpt l to s b) = Returns None \<longrightarrow>
      failure (snd (snd (Rcpt l to s b))) = failure b \<and>
      success (snd (snd (Rcpt l to s b))) = success b) \<and>
   (fst (Data l r s b) = Returns (Some e') \<longrightarrow>
      failure (snd (snd (Data l r s b))) = failure b + 1 \<and>
      success (snd (snd (Data l r s b))) = success b) \<and>
   (fst (Data l r s b) = Returns None \<longrightarrow>
      success (snd (snd (Data l r s b))) = success b + 1 \<and>
      failure (snd (snd (Data l r s b))) = failure b)"
proof -
  obtain o1 s1 b1 where r: "Rcpt_fn l to s b = (o1, s1, b1)"
    by (cases "Rcpt_fn l to s b") auto
  have b1: "b1 = b" using Rcpt_fn_backend [OF r] .
  obtain o2 s2 b2 where d: "Data_fn l r s b = (o2, s2, b2)"
    by (cases "Data_fn l r s b") auto
  note c = Data_fn_counters [OF d]
  have rcpt: "Rcpt l to s b =
      (o1, s1, if (\<exists>e. o1 = Returns (Some e)) then b\<lparr>failure := failure b + 1\<rparr> else b)"
    unfolding Rcpt_def withFailCount_counts [of "Rcpt_fn l to" s b, OF r] b1 ..
  have data: "Data l r s b =
      (o2, s2, if (\<exists>e. o2 = Returns (Some e)) then b2\<lparr>failure := failure b2 + 1\<rparr> else b2)"
    unfolding Data_def withFailCount_counts [of "Data_fn l r" s b, OF d] ..
  show ?thesis
    unfolding rcpt data using c by auto
qed

theorem failure_and_success_counts_witness:
  "fst (Rcpt sample_lib ''mytopic@example.com'' \<lparr>topic = []\<rparr> sample_backend) =
     Returns (Some errInvalidDomain) \<and>
   failure (snd (snd (Rcpt sample_lib ''mytopic@example.com'' \<lparr>topic = []\<rparr> sample_backend))) = 1 \<and>
   success (snd (snd (Rcpt sample_lib ''mytopic@example.com'' \<lparr>topic = []\<rparr> sample_backend))) = 0 \<and>
   fst (Rcpt sample_lib ''ntfy-mytopic@ntfy.sh'' \<lparr>topic = []\<rparr> sample_backend) = Returns None \<and>
   failure (snd (snd (Rcpt sample_lib ''ntfy-mytopic@ntfy.sh'' \<lparr>topic = []\<rparr> sample_backend))) = 0 \<and>
   success (snd (snd (Rcpt sample_lib ''ntfy-mytopic@ntfy.sh'' \<lparr>topic = []\<rparr> sample_backend))) = 0 \<and>
   fst (Data sample_lib (Inr ''garbage'') \<lparr>topic = ''mytopic''\<rparr> sample_backend) =
     Returns (Some (ExternalError ''malformed MIME header line'')) \<and>
   failure (snd (snd (Data sample_lib (Inr ''garbage'') \<lparr>topic = ''mytopic''\<rparr> sample_backend))) = 1 \<and>
   success (snd (snd (Data sample_lib (Inr ''garbage'') \<lparr>topic = ''mytopic''\<rparr> sample_backend))) = 0 \<and>
   fst (Data sample_lib (Inr raw_hi_world) \<lparr>topic = ''mytopic''\<rparr> sample_backend) = Returns None \<and>
   success (snd (snd (Data sample_lib (Inr raw_hi_world) \<lparr>topic = ''mytopic''\<rparr> sample_backend))) = 1 \<and>
   failure (snd (snd (Data sample_lib (Inr raw_hi_world) \<lparr>topic = ''mytopic''\<rparr> sample_backend))) = 0"
proof -
  have r1: "fst (Rcpt sample_lib ''mytopic@example.com'' \<lparr>topic = []\<rparr> sample_backend) =
     Returns (Some errInvalidDomain)"
    by (simp add: Rcpt_def withFailCount_def Rcpt_fn_def strings_HasSuffix_def sample_lib_def
        sample_backend_def sample_conf_def)
  have r2: "fst (Rcpt sample_lib ''ntfy-mytopic@ntfy.sh'' \<lparr>topic = []\<rparr> sample_backend) =
     Returns None"
    by (simp add: Rcpt_def withFailCount_def Rcpt_fn_def strings_HasSuffix_def
        strings_TrimSuffix_def strings_HasPrefix_def strings_TrimPrefix_def sample_lib_def
        sample_backend_def sample_conf_def sample_topic_char_def)
  have d1: "fst (Data sample_lib (Inr ''garbage'') \<lparr>topic = ''mytopic''\<rparr> sample_backend) =
     Returns (Some (ExternalError ''malformed MIME header line''))"
    by (simp add: Data_def withFailCount_def Data_fn_def io_ReadAll_def sample_lib_def raw_defs
        crlf_def)
  have rd: "io_ReadAll (Inr raw_hi_world) = Inr raw_hi_world"
    by (simp add: io_ReadAll_def)
  have lim: "0 \<le> MessageLimit (config sample_backend)"
    by (simp add: sample_limit)
  have d2: "fst (Data sample_lib (Inr raw_hi_world) \<lparr>topic = ''mytopic''\<rparr> sample_backend) =
     Returns None"
    unfolding Data_hands [OF rd sample_ReadMessage(3) sample_readMailBody(3) lim
        sample_populated_title(3) refl]
    by (simp add: sample_sub)
  have z: "failure sample_backend = 0" "success sample_backend = 0"
    by (simp_all add: sample_backend_def)
  note a = failure_and_success_counts [of sample_lib "''mytopic@example.com''" "\<lparr>topic = []\<rparr>"
      sample_backend errInvalidDomain, THEN conjunct1, THEN mp, OF r1]
  note b = failure_and_success_counts [of sample_lib "''ntfy-mytopic@ntfy.sh''" "\<lparr>topic = []\<rparr>"
      sample_backend, THEN conjunct2, THEN conjunct1, THEN mp, OF r2]
  note c = failure_and_success_counts [of sample_lib _ "\<lparr>topic = ''mytopic''\<rparr>" sample_backend _
      "Inr ''garbage''" "ExternalError ''malformed MIME header line''",
      THEN conjunct2, THEN conjunct2, THEN conjunct1, THEN mp, OF d1]
  note d = failure_and_success_counts [of sample_lib _ "\<lparr>topic = ''mytopic''\<rparr>" sample_backend _
      "Inr raw_hi_world", THEN conjunct2, THEN conjunct2, THEN conjunct2, THEN mp, OF d2]
  show ?thesis
    using r1 r2 d1 d2 a b c d by (simp add: z)
qed

subsection \<open>\<^verbatim>\<open>Data\<close> after \<^verbatim>\<open>Reset\<close>\<close>

lemma Rcpt_error_session:
  assumes "Rcpt l to s b = (out, s', b')" and "out \<noteq> Returns None"
  shows "s' = s"
proof -
  obtain o1 s1 b1 where r: "Rcpt_fn l to s b = (o1, s1, b1)"
    by (cases "Rcpt_fn l to s b") auto
  have "out = o1" "s' = s1"
    using assms(1) unfolding Rcpt_def withFailCount_counts [of "Rcpt_fn l to" s b, OF r] by simp_all
  then show ?thesis
    using Rcpt_fn_session [OF r] assms(2) by simp
qed

lemma Rcpt_each_errors_session:
  "Rcpt_each l tos s b = (outs, s', b') \<Longrightarrow> Returns None \<notin> set outs \<Longrightarrow> s' = s"
proof (induction tos arbitrary: s b outs s' b')
  case Nil
  then show ?case by simp
next
  case (Cons to tos)
  obtain out s1 b1 where r: "Rcpt l to s b = (out, s1, b1)"
    by (cases "Rcpt l to s b") auto
  obtain outs2 s2 b2 where e: "Rcpt_each l tos s1 b1 = (outs2, s2, b2)"
    by (cases "Rcpt_each l tos s1 b1") auto
  have eq: "outs = out # outs2" "s' = s2"
    using Cons.prems(1) r e by simp_all
  have "s1 = s"
    using Rcpt_error_session [OF r] Cons.prems(2) eq(1) by auto
  moreover have "s2 = s1"
    using Cons.IH [OF e] Cons.prems(2) eq(1) by auto
  ultimately show ?case using eq(2) by simp
qed

lemma Data_fn_handed:
  "Data_fn l r s b = (out, s', b') \<Longrightarrow>
   handed b' = handed b \<or> (\<exists>m. handed b' = handed b @ [m] \<and> Topic m = topic s)"
  by (auto simp: Data_fn_def Let_def newDefaultMessage_def
      split: sum.splits if_splits option.splits)

lemma Data_handed:
  "handed (snd (snd (Data l r s b))) = handed b \<or>
   (\<exists>m. handed (snd (snd (Data l r s b))) = handed b @ [m] \<and> Topic m = topic s)"
proof -
  obtain o2 s2 b2 where d: "Data_fn l r s b = (o2, s2, b2)"
    by (cases "Data_fn l r s b") auto
  have "handed (snd (snd (Data l r s b))) = handed b2"
    unfolding Data_def withFailCount_counts [of "Data_fn l r" s b, OF d] by simp
  then show ?thesis
    using Data_fn_handed [OF d] by simp
qed

text \<open>
  C8. \<^verbatim>\<open>Reset\<close> makes the topic empty whatever it was. After it, as long as every
  \<^verbatim>\<open>Rcpt\<close> in between returns an error, the topic is still empty, and \<^verbatim>\<open>Data\<close> hands
  the publisher nothing or one message whose topic is empty.
\<close>

theorem Reset_clears_topic:
  "topic (Reset s) = [] \<and>
   (Rcpt_each l tos (Reset s) b = (outs, s1, b1) \<and> Returns None \<notin> set outs \<longrightarrow>
      topic s1 = [] \<and>
      (handed (snd (snd (Data l r s1 b1))) = handed b1 \<or>
       (\<exists>m. handed (snd (snd (Data l r s1 b1))) = handed b1 @ [m] \<and> Topic m = [])))"
proof (intro conjI impI)
  show "topic (Reset s) = []" by (simp add: Reset_def)
next
  assume h: "Rcpt_each l tos (Reset s) b = (outs, s1, b1) \<and> Returns None \<notin> set outs"
  then have "s1 = Reset s"
    using Rcpt_each_errors_session by blast
  then show "topic s1 = []" by (simp add: Reset_def)
  then show "handed (snd (snd (Data l r s1 b1))) = handed b1 \<or>
       (\<exists>m. handed (snd (snd (Data l r s1 b1))) = handed b1 @ [m] \<and> Topic m = [])"
    using Data_handed [of l r s1 b1] by simp
qed

theorem Reset_clears_topic_witness:
  "Rcpt_each sample_lib [''mytopic@example.com''] (Reset \<lparr>topic = ''mytopic''\<rparr>) sample_backend =
     ([Returns (Some errInvalidDomain)], \<lparr>topic = []\<rparr>, sample_backend\<lparr>failure := 1\<rparr>) \<and>
   Returns None \<notin> set [Returns (Some errInvalidDomain)] \<and>
   topic (Reset \<lparr>topic = ''mytopic''\<rparr>) = [] \<and>
   handed (snd (snd (Data sample_lib (Inr raw_hi_world) \<lparr>topic = []\<rparr>
      (sample_backend\<lparr>failure := 1\<rparr>)))) = [\<lparr>Topic = [], Title = ''Hi'', Message = ''World''\<rparr>]"
proof -
  have e: "Rcpt_each sample_lib [''mytopic@example.com''] (Reset \<lparr>topic = ''mytopic''\<rparr>)
      sample_backend =
     ([Returns (Some errInvalidDomain)], \<lparr>topic = []\<rparr>, sample_backend\<lparr>failure := 1\<rparr>)"
    by (simp add: Reset_def Rcpt_def withFailCount_def Rcpt_fn_def strings_HasSuffix_def
        sample_lib_def sample_backend_def sample_conf_def)
  have h: "Rcpt_each sample_lib [''mytopic@example.com''] (Reset \<lparr>topic = ''mytopic''\<rparr>)
      sample_backend =
     ([Returns (Some errInvalidDomain)], \<lparr>topic = []\<rparr>, sample_backend\<lparr>failure := 1\<rparr>) \<and>
     Returns None \<notin> set [Returns (Some errInvalidDomain)]"
    using e by simp
  note t = Reset_clears_topic [of "\<lparr>topic = ''mytopic''\<rparr>" sample_lib
      "[''mytopic@example.com'']" sample_backend _ _ _ "Inr raw_hi_world"]
  note t1 = t [THEN conjunct1]
  note t2 = t [THEN conjunct2, THEN mp, OF h]
  have rd: "io_ReadAll (Inr raw_hi_world) = Inr raw_hi_world"
    by (simp add: io_ReadAll_def)
  have lim: "0 \<le> MessageLimit (config (sample_backend\<lparr>failure := 1\<rparr>))"
    by (simp add: sample_limit)
  have d: "handed (snd (snd (Data sample_lib (Inr raw_hi_world) \<lparr>topic = []\<rparr>
      (sample_backend\<lparr>failure := 1\<rparr>)))) = [\<lparr>Topic = [], Title = ''Hi'', Message = ''World''\<rparr>]"
    unfolding Data_hands [OF rd sample_ReadMessage(3) sample_readMailBody(3) lim
        sample_populated_title(3) refl]
    by (simp add: sample_sub sample_handed sample_limit sample_TrimSpace cut_def swap_rule_def)
  show ?thesis
    using h t1 t2 d by simp
qed

end
